theory Spec2Isabelle
  imports
    Complex_Main
    "HOL-Library.Char_ord"
    "HOL-Library.List_Lexorder"
    "HOL-Library.Multiset"
    "HOL-Library.Sublist"
begin

unbundle bit_operations_syntax

section \<open>Python values used by the document-pack code\<close>

text \<open>
  A Python \<open>str\<close> is modelled as a \<open>string\<close>: a list of 8-bit characters read as
  the code points 0 to 255. Python compares strings lexicographically by code point,
  which is the order of \<open>HOL-Library.List_Lexorder\<close> over \<open>HOL-Library.Char_ord\<close>.
  Python's \<open>int\<close> is \<open>int\<close>. An exception is a value of \<open>py_error\<close>.
\<close>

datatype py_error = IndexError | KeyError

text \<open>\<open>xs[:k]\<close>: a negative bound counts from the end of the list.\<close>

definition py_slice_to :: "int \<Rightarrow> 'a list \<Rightarrow> 'a list" where
  "py_slice_to k xs =
     (if 0 \<le> k then take (nat k) xs else take (nat (int (length xs) + k)) xs)"

text \<open>\<open>xs[-n:]\<close> for a positive literal \<open>n\<close>: the last \<open>n\<close> elements.\<close>

definition py_last_n :: "nat \<Rightarrow> 'a list \<Rightarrow> 'a list" where
  "py_last_n n xs = drop (length xs - n) xs"

text \<open>\<open>xs[i]\<close>: negative indices count from the end, out of range raises.\<close>

definition py_get :: "'a list \<Rightarrow> int \<Rightarrow> 'a option" where
  "py_get xs i =
     (if 0 \<le> i \<and> i < int (length xs) then Some (xs ! nat i)
      else if - int (length xs) \<le> i \<and> i < 0 then Some (xs ! nat (int (length xs) + i))
      else None)"

text \<open>\<open>sep.join(xs)\<close>.\<close>

fun join :: "string \<Rightarrow> string list \<Rightarrow> string" where
  "join sep [] = []"
| "join sep [x] = x"
| "join sep (x # y # ys) = x @ sep @ join sep (y # ys)"

text \<open>\<open>s or d\<close> for an optional string: \<open>None\<close> and the empty string are falsy.\<close>

definition py_or :: "string option \<Rightarrow> string \<Rightarrow> string" where
  "py_or s d = (case s of None \<Rightarrow> d | Some x \<Rightarrow> if x = [] then d else x)"

text \<open>
  \<open>str.lower\<close> on the code points below 256: the upper-case letters are A to Z and
  the Latin-1 letters 192 to 222 without the multiplication sign 215; each maps to the
  code point 32 above it.
\<close>

definition lower_char :: "char \<Rightarrow> char" where
  "lower_char c =
     (let n = (of_char c :: nat)
      in if (65 \<le> n \<and> n \<le> 90) \<or> (192 \<le> n \<and> n \<le> 222 \<and> n \<noteq> 215)
         then char_of (n + 32) else c)"

definition lower :: "string \<Rightarrow> string" where
  "lower s = map lower_char s"

text \<open>
  The truth value of \<open>k.strip()\<close>: the string has a character that is not white space.
  Below 256 Python's white space is 9 to 13, 28 to 32, 133 and 160.
\<close>

definition is_space :: "char \<Rightarrow> bool" where
  "is_space c =
     (let n = (of_char c :: nat)
      in (9 \<le> n \<and> n \<le> 13) \<or> (28 \<le> n \<and> n \<le> 32) \<or> n = 133 \<or> n = 160)"

definition strip_nonempty :: "string \<Rightarrow> bool" where
  "strip_nonempty k = (\<exists>c \<in> set k. \<not> is_space c)"

text \<open>\<open>kw in s\<close> on strings: \<open>kw\<close> occurs in \<open>s\<close> as a contiguous substring.\<close>

fun str_in :: "string \<Rightarrow> string \<Rightarrow> bool" where
  "str_in kw [] = (kw = [])"
| "str_in kw (c # s) = (prefix kw (c # s) \<or> str_in kw s)"

text \<open>
  \<open>list(dict.fromkeys(xs))\<close>: the keys of a dictionary in insertion order; a key that
  is already present keeps its first position.
\<close>

definition fromkeys :: "'a list \<Rightarrow> 'a list" where
  "fromkeys xs = fold (\<lambda>x d. if x \<in> set d then d else d @ [x]) xs []"

text \<open>
  \<open>sorted(xs, key=f, reverse=True)\<close>: CPython reverses the list, sorts it stably in
  ascending order of the key and reverses the result, so equal keys keep the order they
  had in \<open>xs\<close>. \<open>sort_key\<close> is a stable ascending sort.
\<close>

definition sorted_reverse :: "('a \<Rightarrow> 'k::linorder) \<Rightarrow> 'a list \<Rightarrow> 'a list" where
  "sorted_reverse f xs = rev (sort_key f (rev xs))"

text \<open>
  The loop \<open>for u in xs: if u in seen: continue; seen.add(u); out.append(u)\<close> that
  both the ingest log and the ingestion engine use to drop repeated URLs.
\<close>

fun dedupe_loop :: "'a list \<Rightarrow> 'a set \<Rightarrow> 'a list \<Rightarrow> 'a list" where
  "dedupe_loop [] seen out = out"
| "dedupe_loop (u # us) seen out =
     (if u \<in> seen then dedupe_loop us seen out
      else dedupe_loop us (insert u seen) (out @ [u]))"

section \<open>SHA-256 and the UTF-8 encoding\<close>

text \<open>
  \<open>hashlib.sha256(raw.encode()).hexdigest()\<close>. The digest follows FIPS 180-4; a 32-bit
  word is a natural number below \<open>2 ^ 32\<close> and every addition is reduced modulo
  \<open>2 ^ 32\<close>. A byte is a natural number below 256.
\<close>

definition utf8_char :: "char \<Rightarrow> nat list" where
  "utf8_char c =
     (let n = (of_char c :: nat)
      in if n < 128 then [n] else [192 + n div 64, 128 + n mod 64])"

definition utf8_encode :: "string \<Rightarrow> nat list" where
  "utf8_encode s = concat (map utf8_char s)"

definition add32 :: "nat \<Rightarrow> nat \<Rightarrow> nat" where
  "add32 x y = (x + y) mod 4294967296"

definition rotr :: "nat \<Rightarrow> nat \<Rightarrow> nat" where
  "rotr n x = x div 2 ^ n + (x mod 2 ^ n) * 2 ^ (32 - n)"

definition shr :: "nat \<Rightarrow> nat \<Rightarrow> nat" where
  "shr n x = x div 2 ^ n"

definition not32 :: "nat \<Rightarrow> nat" where
  "not32 x = 4294967295 - x"

definition ssig0 :: "nat \<Rightarrow> nat" where
  "ssig0 x = rotr 7 x XOR rotr 18 x XOR shr 3 x"

definition ssig1 :: "nat \<Rightarrow> nat" where
  "ssig1 x = rotr 17 x XOR rotr 19 x XOR shr 10 x"

definition bsig0 :: "nat \<Rightarrow> nat" where
  "bsig0 x = rotr 2 x XOR rotr 13 x XOR rotr 22 x"

definition bsig1 :: "nat \<Rightarrow> nat" where
  "bsig1 x = rotr 6 x XOR rotr 11 x XOR rotr 25 x"

definition ch :: "nat \<Rightarrow> nat \<Rightarrow> nat \<Rightarrow> nat" where
  "ch x y z = (x AND y) XOR (not32 x AND z)"

definition maj :: "nat \<Rightarrow> nat \<Rightarrow> nat \<Rightarrow> nat" where
  "maj x y z = (x AND y) XOR (x AND z) XOR (y AND z)"

type_synonym sha_state = "nat \<times> nat \<times> nat \<times> nat \<times> nat \<times> nat \<times> nat \<times> nat"

definition sha_K :: "nat list" where
  "sha_K = [
   1116352408, 1899447441, 3049323471, 3921009573, 961987163, 1508970993, 2453635748, 2870763221,
   3624381080, 310598401, 607225278, 1426881987, 1925078388, 2162078206, 2614888103, 3248222580,
   3835390401, 4022224774, 264347078, 604807628, 770255983, 1249150122, 1555081692, 1996064986,
   2554220882, 2821834349, 2952996808, 3210313671, 3336571891, 3584528711, 113926993, 338241895,
   666307205, 773529912, 1294757372, 1396182291, 1695183700, 1986661051, 2177026350, 2456956037,
   2730485921, 2820302411, 3259730800, 3345764771, 3516065817, 3600352804, 4094571909, 275423344,
   430227734, 506948616, 659060556, 883997877, 958139571, 1322822218, 1537002063, 1747873779,
   1955562222, 2024104815, 2227730452, 2361852424, 2428436474, 2756734187, 3204031479, 3329325298]"

definition sha_H0 :: sha_state where
  "sha_H0 = (1779033703, 3144134277, 1013904242, 2773480762,
             1359893119, 2600822924, 528734635, 1541459225)"

fun round1 :: "sha_state \<Rightarrow> nat \<times> nat \<Rightarrow> sha_state" where
  "round1 (a, b, c, d, e, f, g, h) (k, w) =
     (let t1 = add32 (add32 (add32 (add32 h (bsig1 e)) (ch e f g)) k) w;
          t2 = add32 (bsig0 a) (maj a b c)
      in (add32 t1 t2, a, b, c, add32 d t1, e, f, g))"

fun add_state :: "sha_state \<Rightarrow> sha_state \<Rightarrow> sha_state" where
  "add_state (a, b, c, d, e, f, g, h) (a', b', c', d', e', f', g', h') =
     (add32 a a', add32 b b', add32 c c', add32 d d',
      add32 e e', add32 f f', add32 g g', add32 h h')"

fun state_words :: "sha_state \<Rightarrow> nat list" where
  "state_words (a, b, c, d, e, f, g, h) = [a, b, c, d, e, f, g, h]"

text \<open>
  The message schedule, newest word first: with \<open>ws = [W(t-1), W(t-2), ...]\<close> the next
  word is \<open>ssig1 W(t-2) + W(t-7) + ssig0 W(t-15) + W(t-16)\<close>.
\<close>

fun sched_extend :: "nat \<Rightarrow> nat list \<Rightarrow> nat list" where
  "sched_extend 0 ws = ws"
| "sched_extend (Suc n) ws =
     sched_extend n (add32 (add32 (add32 (ssig1 (ws ! 1)) (ws ! 6)) (ssig0 (ws ! 14))) (ws ! 15) # ws)"

fun be32 :: "nat list \<Rightarrow> nat list" where
  "be32 (a # b # c # d # rest) = (((a * 256 + b) * 256 + c) * 256 + d) # be32 rest"
| "be32 _ = []"

definition compress :: "sha_state \<Rightarrow> nat list \<Rightarrow> sha_state" where
  "compress st block =
     (let ws = rev (sched_extend 48 (rev (be32 block)))
      in add_state st (foldl round1 st (zip sha_K ws)))"

definition be64 :: "nat \<Rightarrow> nat list" where
  "be64 n = map (\<lambda>i. n div 256 ^ i mod 256) [7, 6, 5, 4, 3, 2, 1, 0]"

definition pad :: "nat list \<Rightarrow> nat list" where
  "pad m =
     (let l = length m
      in m @ [128] @ replicate ((119 - l mod 64) mod 64) 0 @ be64 (8 * l))"

function blocks :: "sha_state \<Rightarrow> nat list \<Rightarrow> sha_state" where
  "blocks st bs =
     (if length bs < 64 then st else blocks (compress st (take 64 bs)) (drop 64 bs))"
  by pat_completeness auto
termination
  by (relation "measure (\<lambda>(st, bs). length bs)") auto

declare blocks.simps [simp del]

definition hexdigit :: "nat \<Rightarrow> char" where
  "hexdigit n = ''0123456789abcdef'' ! n"

definition hex32 :: "nat \<Rightarrow> string" where
  "hex32 w = map (\<lambda>i. hexdigit (w div 16 ^ i mod 16)) [7, 6, 5, 4, 3, 2, 1, 0]"

definition sha256_hexdigest :: "nat list \<Rightarrow> string" where
  "sha256_hexdigest m = concat (map hex32 (state_words (blocks sha_H0 (pad m))))"

section \<open>The pack cache: keys\<close>

text \<open>
  \<open>_key_from_sources\<close> (docpack_manager.py): the f-string
  \<open>{tech or 'generic'}|{version or 'latest'}|{lang}|{','.join(sorted(sources))}\<close>,
  then the SHA-256 hex digest of its UTF-8 encoding.
\<close>

definition key_raw :: "string option \<Rightarrow> string option \<Rightarrow> string \<Rightarrow> string list \<Rightarrow> string" where
  "key_raw tech version lang sources =
     py_or tech ''generic'' @ ''|'' @ py_or version ''latest'' @ ''|'' @ lang @ ''|'' @
     join '','' (sort sources)"

definition key_from_sources ::
  "string option \<Rightarrow> string option \<Rightarrow> string \<Rightarrow> string list \<Rightarrow> string" where
  "key_from_sources tech version lang sources =
     sha256_hexdigest (utf8_encode (key_raw tech version lang sources))"

section \<open>The retrieval engine (retriever.py)\<close>

text \<open>
  A document is the dictionary with the keys \<open>title\<close>, \<open>url\<close> and \<open>text\<close> that the
  ingestion engine builds. A pack's entry of \<open>_pack_indexes\<close> holds the FAISS index,
  modelled by the list of the vectors added so far (\<open>ntotal\<close> is its length), and the
  parallel list \<open>meta\<close> of documents.
\<close>

record doc =
  doc_title :: string
  doc_url :: string
  doc_text :: string

record 'v pack_index =
  index :: "'v list"
  meta :: "doc list"

record 's hit =
  hit_text :: string
  hit_url :: string
  hit_title :: string
  hit_score :: 's

record context_item =
  ctx_text :: string
  ctx_url :: string
  ctx_title :: string

record 's citation =
  cit_title :: string
  cit_url :: string
  cit_score :: 's

text \<open>
  The numeric services are outside the repository and are taken as parameters:
  \<^item> \<open>encode texts\<close> is \<open>_normalize(model.encode(texts).astype("float32"))\<close>, one row
    per text, rows of an arbitrary type \<open>'v\<close>;
  \<open>search vectors q n\<close> is \<open>index.search(q, n)[1][0].tolist()\<close> on the index holding
  \<open>vectors\<close>: a list of offsets in which FAISS writes \<open>-1\<close> for a missing neighbour;
  \<open>predict pairs\<close> is the cross-encoder's score array. A score is a value of a
  linearly ordered type \<open>'s\<close>, which is what \<open>float\<close> comparison is on scores that are
  not NaN.
\<close>

record ('v, 's) models =
  encode :: "string list \<Rightarrow> 'v list"
  search :: "'v list \<Rightarrow> 'v list \<Rightarrow> int \<Rightarrow> int list"
  predict :: "(string \<times> string) list \<Rightarrow> 's list"

definition ensure_index ::
  "string \<Rightarrow> (string \<rightharpoonup> 'v pack_index) \<Rightarrow> (string \<rightharpoonup> 'v pack_index)" where
  "ensure_index pack_key ixs =
     (if pack_key \<in> dom ixs then ixs else ixs(pack_key \<mapsto> \<lparr>index = [], meta = []\<rparr>))"

definition upsert_documents ::
  "('v, 's) models \<Rightarrow> string \<Rightarrow> doc list \<Rightarrow> (string \<rightharpoonup> 'v pack_index) \<Rightarrow>
   (string \<rightharpoonup> 'v pack_index)" where
  "upsert_documents M pack_key docs ixs =
     (let ixs1 = ensure_index pack_key ixs
      in case ixs1 pack_key of
           None \<Rightarrow> ixs1
         | Some ix \<Rightarrow>
             ixs1(pack_key \<mapsto>
               \<lparr>index = index ix @ encode M (map (\<lambda>d. ''passage: '' @ doc_text d) docs),
                meta = meta ix @ docs\<rparr>))"

text \<open>\<open>pre_k = min(max(k * 3, 30), index.ntotal)\<close>.\<close>

definition pre_k :: "int \<Rightarrow> nat \<Rightarrow> int" where
  "pre_k k ntotal = min (max (k * 3) 30) (int ntotal)"

text \<open>The query matrix, the offsets kept after \<open>if i != -1\<close>, and \<open>cands\<close>.\<close>

definition q_vec :: "('v, 's) models \<Rightarrow> string \<Rightarrow> 'v list" where
  "q_vec M query = encode M [''query: '' @ query]"

definition recall_idxs :: "('v, 's) models \<Rightarrow> 'v pack_index \<Rightarrow> string \<Rightarrow> int \<Rightarrow> int list" where
  "recall_idxs M ix query k =
     filter (\<lambda>i. i \<noteq> - 1)
       (search M (index ix) (q_vec M query) (pre_k k (length (index ix))))"

definition recall_cands ::
  "('v, 's) models \<Rightarrow> 'v pack_index \<Rightarrow> string \<Rightarrow> int \<Rightarrow> doc list option" where
  "recall_cands M ix query k = those (map (py_get (meta ix)) (recall_idxs M ix query k))"

text \<open>\<open>pairs\<close>, \<open>re_scores\<close> and \<open>ranked\<close>: the sort key is \<open>float(x[1])\<close>.\<close>

definition rerank_pairs :: "string \<Rightarrow> doc list \<Rightarrow> (string \<times> string) list" where
  "rerank_pairs query cands = map (\<lambda>c. (query, doc_text c)) cands"

definition scored :: "('v, 's) models \<Rightarrow> string \<Rightarrow> doc list \<Rightarrow> (doc \<times> 's) list" where
  "scored M query cands = zip cands (predict M (rerank_pairs query cands))"

definition ranked :: "('v, 's::linorder) models \<Rightarrow> string \<Rightarrow> int \<Rightarrow> doc list \<Rightarrow> (doc \<times> 's) list" where
  "ranked M query k cands = py_slice_to k (sorted_reverse snd (scored M query cands))"

definition hit_of :: "doc \<times> 's \<Rightarrow> 's hit" where
  "hit_of cs =
     \<lparr>hit_text = doc_text (fst cs), hit_url = doc_url (fst cs),
      hit_title = doc_title (fst cs), hit_score = snd cs\<rparr>"

definition context_of :: "'s hit \<Rightarrow> context_item" where
  "context_of h = \<lparr>ctx_text = hit_text h, ctx_url = hit_url h, ctx_title = hit_title h\<rparr>"

definition citation_of :: "'s hit \<Rightarrow> 's citation" where
  "citation_of h = \<lparr>cit_title = hit_title h, cit_url = hit_url h, cit_score = hit_score h\<rparr>"

text \<open>
  \<open>retrieve_from_pack\<close>: the result, or the exception, and the index table after the
  call (\<open>_ensure_index\<close> may have added an empty entry). \<open>meta[i]\<close> raises
  \<open>IndexError\<close> for an offset outside the list.
\<close>

definition retrieve_from_pack ::
  "('v, 's::linorder) models \<Rightarrow> string \<Rightarrow> string \<Rightarrow> int \<Rightarrow> (string \<rightharpoonup> 'v pack_index) \<Rightarrow>
   (py_error + context_item list \<times> 's citation list) \<times> (string \<rightharpoonup> 'v pack_index)" where
  "retrieve_from_pack M pack_key query k ixs =
     (let ixs1 = ensure_index pack_key ixs
      in case ixs1 pack_key of
           None \<Rightarrow> (Inl KeyError, ixs1)
         | Some ix \<Rightarrow>
             if length (index ix) = 0 then (Inr ([], []), ixs1)
             else (case recall_cands M ix query k of
                     None \<Rightarrow> (Inl IndexError, ixs1)
                   | Some cands \<Rightarrow>
                       (let hits = map hit_of (ranked M query k cands)
                        in (Inr (map context_of hits, map citation_of (take 4 hits)), ixs1))))"

text \<open>\<open>get_index_stats\<close>.\<close>

definition get_index_stats ::
  "string \<Rightarrow> (string \<rightharpoonup> 'v pack_index) \<Rightarrow> (nat \<times> nat) \<times> (string \<rightharpoonup> 'v pack_index)" where
  "get_index_stats pack_key ixs =
     (let ixs1 = ensure_index pack_key ixs
      in case ixs1 pack_key of
           None \<Rightarrow> ((0, 0), ixs1)
         | Some ix \<Rightarrow> ((length (index ix), length (meta ix)), ixs1))"

section \<open>The ingestion engine (ingest.py)\<close>

text \<open>
  What the ingestion engine calls outside the repository is taken as a parameter, one
  record for the network and the libraries:
  \<^item> \<open>fetch url\<close> is the page's HTML, or \<open>None\<close> when \<open>_fetch\<close> raises;
  \<^item> \<open>anchors html\<close> is \<open>a["href"]\<close> for every anchor that
    \<open>BeautifulSoup(html, "lxml").find_all("a", href=True)\<close> yields, in document order, or
    \<open>None\<close> when the parser raises;
  \<^item> \<open>urljoin base href\<close> is \<open>urllib.parse.urljoin\<close>, \<open>None\<close> when it raises;
  \<^item> \<open>urlparse url\<close> is the pair of \<open>urlparse(url).scheme\<close> and \<open>urlparse(url).netloc\<close>,
    \<open>None\<close> when \<open>urlparse\<close> raises;
  \<^item> \<open>page_parts html\<close> is the list of the non-empty stripped texts of the tags that
    \<open>_extract_text\<close> visits, \<open>None\<close> when the parser raises;
  \<^item> \<open>page_title html\<close> is the stripped text of the page's title tag, if it has one.
\<close>

record web =
  fetch :: "string \<Rightarrow> string option"
  anchors :: "string \<Rightarrow> string list option"
  urljoin :: "string \<Rightarrow> string \<Rightarrow> string option"
  urlparse :: "string \<Rightarrow> (string \<times> string) option"
  page_parts :: "string \<Rightarrow> string list option"
  page_title :: "string \<Rightarrow> string option"

text \<open>
  \<open>_same_domain\<close>: both URLs are parsed, the base URL first; \<open>None\<close> when either parse
  raises.
\<close>

definition same_domain :: "web \<Rightarrow> string \<Rightarrow> string \<Rightarrow> bool option" where
  "same_domain W url candidate =
     (case urlparse W url of
        None \<Rightarrow> None
      | Some u \<Rightarrow>
          (case urlparse W candidate of
             None \<Rightarrow> None
           | Some c \<Rightarrow> Some (snd u = snd c \<and> (fst c = ''http'' \<or> fst c = ''https''))))"

text \<open>\<open>_extract_text\<close>: the parts joined by newlines, cut to 5000 characters.\<close>

definition extract_text :: "web \<Rightarrow> string \<Rightarrow> string option" where
  "extract_text W html = map_option (\<lambda>parts. take 5000 (join [CHR 0x0A] parts)) (page_parts W html)"

text \<open>
  The loop of \<open>_candidate_links\<close> over the anchors, appending to \<open>hrefs\<close>; an exception
  in \<open>urljoin\<close> or \<open>_same_domain\<close> ends the whole call.
\<close>

fun collect_hrefs ::
  "web \<Rightarrow> string \<Rightarrow> string list \<Rightarrow> string list \<Rightarrow> string list \<Rightarrow> string list option" where
  "collect_hrefs W base_url kws [] hrefs = Some hrefs"
| "collect_hrefs W base_url kws (href # rest) hrefs =
     (case urljoin W base_url href of
        None \<Rightarrow> None
      | Some cand \<Rightarrow>
          (case same_domain W base_url cand of
             None \<Rightarrow> None
           | Some same \<Rightarrow>
               if \<not> same then collect_hrefs W base_url kws rest hrefs
               else if list_ex (\<lambda>kw. str_in kw (lower cand)) kws
                    then collect_hrefs W base_url kws rest (hrefs @ [cand])
                    else collect_hrefs W base_url kws rest hrefs))"

text \<open>\<open>_candidate_links\<close>: \<open>None\<close> when the call raises.\<close>

definition candidate_links :: "web \<Rightarrow> string \<Rightarrow> string list \<Rightarrow> int \<Rightarrow> string list option" where
  "candidate_links W base_url keywords limit =
     (case fetch W base_url of
        None \<Rightarrow> None
      | Some html \<Rightarrow>
          (case anchors W html of
             None \<Rightarrow> None
           | Some as \<Rightarrow>
               (let kws = map lower (filter strip_nonempty keywords)
                in case collect_hrefs W base_url kws as [] of
                     None \<Rightarrow> None
                   | Some hrefs \<Rightarrow> Some (py_slice_to limit (base_url # fromkeys hrefs)))))"

text \<open>The body of the per-page \<open>try\<close>: the document, or \<open>None\<close> when anything raises.\<close>

definition page_doc :: "web \<Rightarrow> string \<Rightarrow> doc option" where
  "page_doc W url =
     (case fetch W url of
        None \<Rightarrow> None
      | Some html \<Rightarrow>
          (case extract_text W html of
             None \<Rightarrow> None
           | Some txt \<Rightarrow>
               Some \<lparr>doc_title = (case page_title W html of Some t \<Rightarrow> t | None \<Rightarrow> url),
                     doc_url = url, doc_text = txt\<rparr>))"

text \<open>
  The loop of \<open>ingest_stage_a\<close> over the sources; the accumulator is \<open>total\<close> (here
  \<open>total_n\<close>), \<open>all_urls\<close> and the index table.
\<close>

fun ingest_sources ::
  "web \<Rightarrow> ('v, 's) models \<Rightarrow> string \<Rightarrow> string list \<Rightarrow> int \<Rightarrow> string list \<Rightarrow>
   nat \<times> string list \<times> (string \<rightharpoonup> 'v pack_index) \<Rightarrow>
   nat \<times> string list \<times> (string \<rightharpoonup> 'v pack_index)" where
  "ingest_sources W M pack_key subtopics max_pages [] acc = acc"
| "ingest_sources W M pack_key subtopics max_pages (base # rest) (total_n, all_urls, ixs) =
     (case candidate_links W base subtopics max_pages of
        None \<Rightarrow> ingest_sources W M pack_key subtopics max_pages rest (total_n, all_urls, ixs)
      | Some links \<Rightarrow>
          (let docs = List.map_filter (page_doc W) links
           in if docs \<noteq> []
              then ingest_sources W M pack_key subtopics max_pages rest
                     (total_n + length docs, all_urls @ links, upsert_documents M pack_key docs ixs)
              else ingest_sources W M pack_key subtopics max_pages rest
                     (total_n, all_urls @ links, ixs)))"

definition ingest_stage_a ::
  "web \<Rightarrow> ('v, 's) models \<Rightarrow> string \<Rightarrow> string list \<Rightarrow> string list \<Rightarrow> int \<Rightarrow>
   (string \<rightharpoonup> 'v pack_index) \<Rightarrow> (nat \<times> string list) \<times> (string \<rightharpoonup> 'v pack_index)" where
  "ingest_stage_a W M pack_key sources subtopics max_pages_per_source ixs =
     (if sources = [] then ((0, []), ixs)
      else (case ingest_sources W M pack_key subtopics max_pages_per_source sources (0, [], ixs) of
              (total_n, all_urls, ixs') \<Rightarrow>
                ((total_n, py_last_n 100 (dedupe_loop all_urls {} [])), ixs')))"

section \<open>The pack cache (docpack_manager.py)\<close>

text \<open>
  A completeness is one of the float literals 0.0, 0.3, 0.6 and 1.0 or a \<open>min\<close> or
  \<open>max\<close> of them; the code only compares and stores these values, so they are modelled
  by the real numbers of the same name.
\<close>

record manifest =
  m_tech :: "string option"
  m_version :: "string option"
  m_lang :: string
  m_sources :: "string list"
  completeness :: real
  ttl_days :: int

text \<open>The fields of \<open>TopicDecision\<close> that the pack cache reads.\<close>

record decision =
  tech :: "string option"
  subtopics :: "string list"
  version :: "string option"
  candidate_sources :: "string list"

text \<open>A coroutine scheduled by \<open>asyncio.create_task(_bg_ingest(...))\<close> that has not run yet.\<close>

record bg_task =
  bg_key :: string
  bg_sources :: "string list"
  bg_subs :: "string list"
  bg_limit :: int

text \<open>
  The module state: \<open>_packs\<close>, \<open>_ingest_log\<close>, the retriever's \<open>_pack_indexes\<close> and the
  scheduled tasks. A coroutine is modelled as running without interleaving: no other
  coroutine writes the manifest of a key between its creation and the end of the first
  build, because a second \<open>ensure_pack_for_decision\<close> for that key returns at once.
\<close>

record 'v state =
  packs :: "string \<rightharpoonup> manifest"
  ingest_log :: "string \<rightharpoonup> string list"
  pack_indexes :: "string \<rightharpoonup> 'v pack_index"
  tasks :: "bg_task list"

definition init_state :: "'v state" where
  "init_state = \<lparr>packs = Map.empty, ingest_log = Map.empty, pack_indexes = Map.empty, tasks = []\<rparr>"

definition get_manifest :: "string \<Rightarrow> 'v state \<Rightarrow> manifest option" where
  "get_manifest key s = packs s key"

definition log_ingest :: "string \<Rightarrow> string list \<Rightarrow> (string \<rightharpoonup> string list) \<Rightarrow> (string \<rightharpoonup> string list)" where
  "log_ingest key urls lg =
     (if urls = [] then lg
      else (let prev = (case lg key of None \<Rightarrow> [] | Some p \<Rightarrow> p);
                merged = prev @ urls;
                out = dedupe_loop (py_last_n 200 merged) {} []
            in lg(key \<mapsto> py_last_n 50 out)))"

text \<open>\<open>_packs[key].completeness = v\<close>: \<open>KeyError\<close> when the key has no manifest.\<close>

definition set_completeness ::
  "string \<Rightarrow> (real \<Rightarrow> real) \<Rightarrow> 'v state \<Rightarrow> py_error + 'v state" where
  "set_completeness key f s =
     (case packs s key of
        None \<Rightarrow> Inl KeyError
      | Some m \<Rightarrow> Inr (s\<lparr>packs := (packs s)(key \<mapsto> m\<lparr>completeness := f (completeness m)\<rparr>)\<rparr>))"

text \<open>
  \<open>_bg_ingest\<close>: the state it leaves, or the exception. \<open>count\<close> (here \<open>cnt\<close>) is the
  number of pages that \<open>ingest_stage_a\<close> reports.
\<close>

definition bg_ingest ::
  "web \<Rightarrow> ('v, 's) models \<Rightarrow> bg_task \<Rightarrow> 'v state \<Rightarrow> py_error + 'v state" where
  "bg_ingest W M t s =
     (case ingest_stage_a W M (bg_key t) (bg_sources t) (bg_subs t) (bg_limit t) (pack_indexes s) of
        ((cnt, urls), ixs') \<Rightarrow>
          (let s1 = s\<lparr>pack_indexes := ixs',
                       ingest_log := log_ingest (bg_key t) urls (ingest_log s)\<rparr>
           in if cnt \<noteq> 0
              then set_completeness (bg_key t) (\<lambda>c. min 1.0 (max c 0.6)) s1
              else Inr s1))"

text \<open>\<open>ensure_pack_for_decision\<close>: the pair (key, status) and the state it leaves.\<close>

definition ensure_pack_for_decision ::
  "web \<Rightarrow> ('v, 's) models \<Rightarrow> decision \<Rightarrow> string \<Rightarrow> 'v state \<Rightarrow>
   (py_error + string \<times> string) \<times> 'v state" where
  "ensure_pack_for_decision W M d lang s =
     (let tech' = tech d;
          version' = py_or (version d) ''latest'';
          sources = candidate_sources d;
          key = key_from_sources tech' (Some version') lang sources
      in if key \<in> dom (packs s) then (Inr (key, ''ready''), s)
         else
           (let s1 = s\<lparr>packs := (packs s)(key \<mapsto>
                        \<lparr>m_tech = tech', m_version = Some version', m_lang = lang,
                         m_sources = sources, completeness = 0.0, ttl_days = 14\<rparr>)\<rparr>
            in case ingest_stage_a W M key sources (subtopics d) 15 (pack_indexes s1) of
                 ((cnt, urls), ixs') \<Rightarrow>
                   (let s2 = s1\<lparr>pack_indexes := ixs',
                                 ingest_log := log_ingest key urls (ingest_log s1)\<rparr>
                    in case set_completeness key (\<lambda>c. if cnt \<noteq> 0 then 0.3 else 0.0) s2 of
                         Inl e \<Rightarrow> (Inl e, s2)
                       | Inr s3 \<Rightarrow>
                           (Inr (key, if cnt \<noteq> 0 then ''ready'' else ''building''),
                            s3\<lparr>tasks := tasks s3 @
                               [\<lparr>bg_key = key, bg_sources = sources,
                                 bg_subs = subtopics d, bg_limit = 30\<rparr>]\<rparr>))))"

text \<open>
  The lifecycle of the module state: a call of \<open>ensure_pack_for_decision\<close>, a scheduled
  enrichment task running to completion, or a retrieval (which may create an empty
  index). The web and the models may answer differently at every step.
\<close>

inductive lifecycle_step :: "'v state \<Rightarrow> 'v state \<Rightarrow> bool" where
  ensure_step:
    "ensure_pack_for_decision W (M :: ('v, real) models) d lang s = (r, s') \<Longrightarrow>
     lifecycle_step s s'"
| enrich_step:
    "t \<in> set (tasks s) \<Longrightarrow>
     bg_ingest W (M :: ('v, real) models) t (s\<lparr>tasks := remove1 t (tasks s)\<rparr>) = Inr s' \<Longrightarrow>
     lifecycle_step s s'"
| retrieve_step:
    "retrieve_from_pack (M :: ('v, real) models) key query k (pack_indexes s) = (r, ixs') \<Longrightarrow>
     lifecycle_step s (s\<lparr>pack_indexes := ixs'\<rparr>)"

inductive reachable :: "'v state \<Rightarrow> bool" where
  reachable_init: "reachable init_state"
| reachable_step: "reachable s \<Longrightarrow> lifecycle_step s s' \<Longrightarrow> reachable s'"

section \<open>Evaluation helpers\<close>

text \<open>The length of a literal list, counted in an accumulator so that it stays a numeral.\<close>

fun len_acc :: "'a list \<Rightarrow> nat \<Rightarrow> nat" where
  "len_acc [] n = n"
| "len_acc (x # xs) n = len_acc xs (n + 1)"

section \<open>Specification-level notions\<close>

text \<open>
  \<open>ys\<close> is \<open>xs\<close> sorted by descending key with ties in the order they have in \<open>xs\<close>:
  the same elements, keys that never increase, and for every key value the elements
  with that key appear in \<open>ys\<close> exactly as they do in \<open>xs\<close>.
\<close>

definition stable_desc_sorted :: "('a \<Rightarrow> 'k::linorder) \<Rightarrow> 'a list \<Rightarrow> 'a list \<Rightarrow> bool" where
  "stable_desc_sorted f xs ys \<longleftrightarrow>
     mset ys = mset xs \<and>
     sorted_wrt (\<lambda>a b. f b \<le> f a) ys \<and>
     (\<forall>x \<in> set xs. filter (\<lambda>y. f y = f x) ys = filter (\<lambda>y. f y = f x) xs)"

text \<open>
  Every offset that the index returns (other than the padding \<open>-1\<close>) addresses a
  document of \<open>meta\<close>, counting Python's negative indices.
\<close>

definition valid_offsets :: "('v, 's) models \<Rightarrow> 'v pack_index \<Rightarrow> string \<Rightarrow> int \<Rightarrow> bool" where
  "valid_offsets M ix query k \<longleftrightarrow>
     (\<forall>i \<in> set (recall_idxs M ix query k).
        - int (length (meta ix)) \<le> i \<and> i < int (length (meta ix)))"

section \<open>Example inputs\<close>

text \<open>
  A pack of up to ten documents whose texts have the lengths 0 to 9, an index that
  answers a search for \<open>n\<close> neighbours with the first \<open>n\<close> offsets, and a reranker that
  scores a pair by the length of the candidate text.
\<close>

definition demo_doc :: "nat \<Rightarrow> doc" where
  "demo_doc n = \<lparr>doc_title = ''t'', doc_url = ''u'', doc_text = replicate n CHR ''x''\<rparr>"

definition demo_index :: "nat \<Rightarrow> nat pack_index" where
  "demo_index n =
     \<lparr>index = take n [0, 1, 2, 3, 4, 5, 6, 7, 8, 9],
      meta = take n (map demo_doc [0, 1, 2, 3, 4, 5, 6, 7, 8, 9])\<rparr>"

definition demo_models :: "(nat, real) models" where
  "demo_models =
     \<lparr>encode = map length,
      search = (\<lambda>vecs q n. take (nat n) [0, 1, 2, 3, 4, 5, 6, 7, 8, 9]),
      predict = map (\<lambda>p. real (length (snd p)))\<rparr>"

text \<open>
  A pack of three documents in which two texts have the same length, with an index that
  returns the offsets in the order 2, 0, 1.
\<close>

definition tie_docs :: "doc list" where
  "tie_docs =
     [\<lparr>doc_title = ''A'', doc_url = ''u/a'', doc_text = ''x''\<rparr>,
      \<lparr>doc_title = ''B'', doc_url = ''u/b'', doc_text = ''xx''\<rparr>,
      \<lparr>doc_title = ''C'', doc_url = ''u/c'', doc_text = ''y''\<rparr>]"

definition tie_index :: "nat pack_index" where
  "tie_index = \<lparr>index = [0, 1, 2], meta = tie_docs\<rparr>"

definition tie_models :: "(nat, real) models" where
  "tie_models =
     \<lparr>encode = map length,
      search = (\<lambda>vecs q n. take (nat n) [2, 0, 1]),
      predict = map (\<lambda>p. real (length (snd p)))\<rparr>"

(*DEFS-END*)

section \<open>Properties of the key derivation\<close>

lemma len_acc_length: "len_acc xs n = length xs + n"
  by (induction xs arbitrary: n) auto

lemma length_eval: "length (x # xs) = len_acc xs 1"
  by (simp add: len_acc_length)

lemma replicate_numeral_eval: "replicate (numeral k) x = x # replicate (pred_numeral k) x"
  by (simp add: numeral_eq_Suc)

lemma sched_extend_numeral:
  "sched_extend (numeral k) ws =
     sched_extend (pred_numeral k)
       (add32 (add32 (add32 (ssig1 (ws ! 1)) (ws ! 6)) (ssig0 (ws ! 14))) (ws ! 15) # ws)"
  by (simp add: numeral_eq_Suc)

lemmas sha_eval =
  add32_def shr_def not32_def ssig0_def ssig1_def bsig0_def bsig1_def ch_def maj_def rotr_def
  sha_K_def sha_H0_def sched_extend_numeral compress_def hex32_def hexdigit_def

lemma pad_zeros_short:
  assumes "l < 56"
  shows "(119 - l) mod 64 = 55 - (l::nat)"
proof -
  have "119 - l = 64 + (55 - l)"
    using assms by simp
  then have "(119 - l) mod 64 = (55 - l) mod 64"
    by (simp only: mod_add_self1)
  moreover have "55 - l < 64"
    by simp
  ultimately show ?thesis
    by (simp only: mod_less)
qed

lemma length_pad_short: "length m < 56 \<Longrightarrow> length (pad m) = 64"
  by (simp add: pad_def be64_def Let_def pad_zeros_short)

text \<open>A message of at most 55 bytes is padded to one block.\<close>

lemma sha256_single_block:
  assumes "length m < 56"
  shows "sha256_hexdigest m = concat (map hex32 (state_words (compress sha_H0 (pad m))))"
proof -
  have "blocks sha_H0 (pad m) = blocks (compress sha_H0 (pad m)) []"
    using length_pad_short [OF assms] by (subst blocks.simps) simp
  also have "\<dots> = compress sha_H0 (pad m)"
    by (subst blocks.simps) simp
  finally show ?thesis
    by (simp add: sha256_hexdigest_def)
qed

lemma sort_mset_cong: "mset xs = mset ys \<Longrightarrow> sort xs = sort (ys :: 'a::linorder list)"
  by (metis properties_for_sort sorted_sort mset_sort)

text \<open>
  Claim C1, as the code has it: the key is invariant under reordering of the candidate
  source list. Two source lists with the same elements in the same multiplicities give
  the same key, for every tech, version and language. (Duplicate entries are not
  collapsed: \<open>sorted\<close> keeps them, see the counterexample below.)
\<close>

theorem key_permutation_invariant:
  assumes "mset sources1 = mset sources2"
  shows "key_from_sources tch ver lang sources1 = key_from_sources tch ver lang sources2"
  using sort_mset_cong [OF assms] by (simp add: key_from_sources_def key_raw_def)

theorem key_permutation_invariant_witness:
  "mset [''https://b.io/'', ''https://a.io/''] = mset [''https://a.io/'', ''https://b.io/''] \<and>
   key_from_sources None None ''en'' [''https://b.io/'', ''https://a.io/''] =
   key_from_sources None None ''en'' [''https://a.io/'', ''https://b.io/'']"
  using key_permutation_invariant
    [of "[''https://b.io/'', ''https://a.io/'']" "[''https://a.io/'', ''https://b.io/'']"
        None None "''en''"]
  by simp

lemma raw_a:
  "key_raw None None ''en'' [''https://a.io/''] = ''generic|latest|en|https://a.io/''"
  by (simp add: key_raw_def py_or_def)

lemma raw_aa:
  "key_raw None None ''en'' [''https://a.io/'', ''https://a.io/''] =
   ''generic|latest|en|https://a.io/,https://a.io/''"
  by (simp add: key_raw_def py_or_def)

lemma utf8_a:
  "utf8_encode ''generic|latest|en|https://a.io/'' =
     [103, 101, 110, 101, 114, 105, 99, 124, 108, 97, 116, 101, 115, 116, 124, 101,
      110, 124, 104, 116, 116, 112, 115, 58, 47, 47, 97, 46, 105, 111, 47]"
  by (simp add: utf8_encode_def utf8_char_def)

lemma utf8_aa:
  "utf8_encode ''generic|latest|en|https://a.io/,https://a.io/'' =
     [103, 101, 110, 101, 114, 105, 99, 124, 108, 97, 116, 101, 115, 116, 124, 101,
      110, 124, 104, 116, 116, 112, 115, 58, 47, 47, 97, 46, 105, 111, 47, 44,
      104, 116, 116, 112, 115, 58, 47, 47, 97, 46, 105, 111, 47]"
  by (simp add: utf8_encode_def utf8_char_def)

lemma digest_a:
  "sha256_hexdigest
     [103, 101, 110, 101, 114, 105, 99, 124, 108, 97, 116, 101, 115, 116, 124, 101,
      110, 124, 104, 116, 116, 112, 115, 58, 47, 47, 97, 46, 105, 111, 47] =
   ''fe812732c4c1ae6cfc63cf57bf110e771fed0d0ddaa6306ce1ff2d92737af215''"
  apply (subst sha256_single_block)
   apply (simp add: length_eval del: length_Cons list.size)
  apply (simp add: pad_def length_eval replicate_numeral_eval be64_def del: length_Cons list.size)
  apply (simp add: sha_eval)
  done

lemma digest_aa:
  "sha256_hexdigest
     [103, 101, 110, 101, 114, 105, 99, 124, 108, 97, 116, 101, 115, 116, 124, 101,
      110, 124, 104, 116, 116, 112, 115, 58, 47, 47, 97, 46, 105, 111, 47, 44,
      104, 116, 116, 112, 115, 58, 47, 47, 97, 46, 105, 111, 47] =
   ''e10ec6fa4e9773dae4bfa9e46a49cae5cbcd8cbdb4fdc6ccb2a002da204a73b8''"
  apply (subst sha256_single_block)
   apply (simp add: length_eval del: length_Cons list.size)
  apply (simp add: pad_def length_eval replicate_numeral_eval be64_def del: length_Cons list.size)
  apply (simp add: sha_eval)
  done

text \<open>
  The claim as stated also promises invariance under duplicate entries. It fails: the
  source list with one URL and the list that repeats it have the same set of sources
  and different keys.
\<close>

theorem key_duplicate_counterexample:
  "set [''https://a.io/'', ''https://a.io/''] = set [''https://a.io/''] \<and>
   key_from_sources None None ''en'' [''https://a.io/'', ''https://a.io/''] \<noteq>
   key_from_sources None None ''en'' [''https://a.io/'']"
  by (simp add: key_from_sources_def raw_a raw_aa utf8_a utf8_aa digest_a digest_aa)

text \<open>
  Claim C10: the key function is not injective on topic descriptors. The separators
  \<open>|\<close> and \<open>,\<close> are not escaped, so the one source \<open>a,b\<close> and the two sources \<open>a\<close> and
  \<open>b\<close> give the same string before hashing, and therefore the same key, whatever the
  tech, version and language are.
\<close>

theorem key_not_injective:
  "[''a,b''] \<noteq> [''a'', ''b''] \<and>
   key_raw tch ver lang [''a,b''] = key_raw tch ver lang [''a'', ''b''] \<and>
   key_from_sources tch ver lang [''a,b''] = key_from_sources tch ver lang [''a'', ''b'']"
  by (simp add: key_from_sources_def key_raw_def less_eq_char_def)


section \<open>Properties of the retrieval engine\<close>

lemma ensure_index_Some: "ixs pk = Some ix \<Longrightarrow> ensure_index pk ixs = ixs"
  by (auto simp: ensure_index_def)

lemma ensure_index_None: "ixs pk = None \<Longrightarrow> ensure_index pk ixs pk = Some \<lparr>index = [], meta = []\<rparr>"
  by (auto simp: ensure_index_def)

lemma ensure_index_cases:
  obtains ix where "ensure_index pk ixs pk = Some ix" "ixs pk = Some ix"
  | "ensure_index pk ixs pk = Some \<lparr>index = [], meta = []\<rparr>" "ixs pk = None"
  by (cases "ixs pk") (auto simp: ensure_index_def domIff)

lemma those_map_Some:
  "those (map f xs) = Some ys \<longleftrightarrow> (\<forall>x \<in> set xs. f x \<noteq> None) \<and> ys = map (\<lambda>x. the (f x)) xs"
  by (induction xs arbitrary: ys) (auto split: option.splits)

lemma py_get_Some_iff:
  "(\<exists>y. py_get xs i = Some y) \<longleftrightarrow> - int (length xs) \<le> i \<and> i < int (length xs)"
  by (auto simp: py_get_def)

lemma recall_cands_Some_iff:
  "(\<exists>cands. recall_cands M ix query k = Some cands) \<longleftrightarrow> valid_offsets M ix query k"
  by (auto simp: recall_cands_def those_map_Some valid_offsets_def py_get_Some_iff)

lemma recall_cands_length:
  "recall_cands M ix query k = Some cands \<Longrightarrow> length cands = length (recall_idxs M ix query k)"
  by (auto simp: recall_cands_def those_map_Some)

lemma length_py_slice_to: "0 \<le> k \<Longrightarrow> length (py_slice_to k xs) \<le> nat k"
  by (simp add: py_slice_to_def)

lemma py_slice_to_nonneg: "0 \<le> k \<Longrightarrow> py_slice_to k xs = take (nat k) xs"
  by (simp add: py_slice_to_def)

lemma sorted_reverse_stable:
  "filter (\<lambda>y. f y = v) (sorted_reverse f xs) = filter (\<lambda>y. f y = v) xs"
proof -
  have "filter (\<lambda>y. f y = v) (sorted_reverse f xs) = rev (filter (\<lambda>y. f y = v) (sort_key f (rev xs)))"
    by (simp add: sorted_reverse_def rev_filter)
  also have "\<dots> = rev (filter (\<lambda>y. f y = v) (rev xs))"
    by (simp only: sort_key_stable)
  also have "\<dots> = filter (\<lambda>y. f y = v) xs"
    by (simp add: rev_filter)
  finally show ?thesis .
qed

lemma sorted_reverse_descending: "sorted_wrt (\<lambda>a b. f b \<le> f a) (sorted_reverse f xs)"
proof -
  have "sorted (map f (sort_key f (rev xs)))"
    by simp
  then have "sorted_wrt (\<lambda>a b. f a \<le> f b) (sort_key f (rev xs))"
    by (simp only: sorted_map)
  then show ?thesis
    by (simp add: sorted_reverse_def sorted_wrt_rev)
qed

lemma mset_sorted_reverse: "mset (sorted_reverse f xs) = mset xs"
  by (simp add: sorted_reverse_def)

lemma sorted_reverse_is_stable_desc: "stable_desc_sorted f xs (sorted_reverse f xs)"
  by (simp add: stable_desc_sorted_def sorted_reverse_stable sorted_reverse_descending mset_sorted_reverse)

lemma retrieve_unfold:
  assumes "ensure_index pack_key ixs pack_key = Some ix" "length (index ix) \<noteq> 0"
    "recall_cands M ix query k = Some cands"
  shows "fst (retrieve_from_pack M pack_key query k ixs) =
     Inr (map (context_of \<circ> hit_of) (ranked M query k cands),
          map (citation_of \<circ> hit_of) (take 4 (ranked M query k cands)))"
  using assms by (simp add: retrieve_from_pack_def Let_def take_map)

lemmas retrieve_eval = replicate_numeral_eval
  retrieve_from_pack_def ensure_index_def recall_cands_def recall_idxs_def q_vec_def pre_k_def
  ranked_def scored_def rerank_pairs_def sorted_reverse_def py_slice_to_def py_get_def
  hit_of_def context_of_def citation_of_def demo_models_def demo_index_def demo_doc_def

lemma retrieve_cong_search:
  assumes "ixs pack_key = Some ix"
    and "encode M' = encode M" and "predict M' = predict M"
    and "search M' (index ix) (q_vec M query) (min (max (k * 3) 30) (int (length (index ix)))) =
         search M (index ix) (q_vec M query) (min (max (k * 3) 30) (int (length (index ix))))"
  shows "retrieve_from_pack M' pack_key query k ixs = retrieve_from_pack M pack_key query k ixs"
proof -
  have q: "q_vec M' query = q_vec M query"
    using assms(2) by (simp add: q_vec_def)
  have "recall_idxs M' ix query k = recall_idxs M ix query k"
    using assms(4) by (simp add: recall_idxs_def q pre_k_def)
  then have c: "recall_cands M' ix query k = recall_cands M ix query k"
    by (simp add: recall_cands_def)
  have r: "ranked M' query k = ranked M query k"
    using assms(3) by (simp add: ranked_def scored_def fun_eq_iff)
  show ?thesis
    using ensure_index_Some [of ixs pack_key ix] assms(1)
    by (simp add: retrieve_from_pack_def c r split: option.splits)
qed

lemma length_sorted_reverse: "length (sorted_reverse f xs) = length xs"
  by (simp add: sorted_reverse_def)

lemma those_map_py_get:
  assumes "\<forall>i \<in> set idxs. 0 \<le> i \<and> i < int (length xs)"
  shows "those (map (py_get xs) idxs) = Some (map (\<lambda>i. xs ! nat i) idxs)"
  using assms by (induction idxs) (auto simp: py_get_def)

lemma hit_maps:
  "map (context_of \<circ> hit_of) ps =
     map (\<lambda>p. \<lparr>ctx_text = doc_text (fst p), ctx_url = doc_url (fst p), ctx_title = doc_title (fst p)\<rparr>) ps"
  "map (citation_of \<circ> hit_of) ps =
     map (\<lambda>p. \<lparr>cit_title = doc_title (fst p), cit_url = doc_url (fst p), cit_score = snd p\<rparr>) ps"
  by (simp_all add: context_of_def hit_of_def citation_of_def)

text \<open>
  The whole call in terms of the collaborators, for an index whose answer holds only
  offsets into \<open>meta\<close> (and the padding \<open>-1\<close>).
\<close>

lemma retrieve_pipeline:
  assumes ix: "ixs pack_key = Some ix" and ne: "index ix \<noteq> []"
    and idxs: "idxs = filter (\<lambda>i. i \<noteq> - 1)
        (search M (index ix) (encode M [''query: '' @ query])
           (min (max (k * 3) 30) (int (length (index ix)))))"
    and valid: "\<forall>i \<in> set idxs. 0 \<le> i \<and> i < int (length (meta ix))"
    and cands: "cands = map (\<lambda>i. meta ix ! nat i) idxs"
    and pairs: "pairs = zip cands (predict M (map (\<lambda>c. (query, doc_text c)) cands))"
  shows "fst (retrieve_from_pack M pack_key query k ixs) =
     Inr (map (\<lambda>p. \<lparr>ctx_text = doc_text (fst p), ctx_url = doc_url (fst p),
                       ctx_title = doc_title (fst p)\<rparr>)
            (py_slice_to k (sorted_reverse snd pairs)),
          map (\<lambda>p. \<lparr>cit_title = doc_title (fst p), cit_url = doc_url (fst p), cit_score = snd p\<rparr>)
            (take 4 (py_slice_to k (sorted_reverse snd pairs))))"
proof -
  have e: "ensure_index pack_key ixs pack_key = Some ix"
    using ensure_index_Some [of ixs pack_key ix] ix by simp
  have r: "recall_idxs M ix query k = idxs"
    by (simp add: recall_idxs_def q_vec_def pre_k_def idxs)
  have c: "recall_cands M ix query k = Some cands"
    using those_map_py_get [OF valid] by (simp add: recall_cands_def r cands)
  have "ranked M query k cands = py_slice_to k (sorted_reverse snd pairs)"
    by (simp add: ranked_def scored_def rerank_pairs_def pairs)
  with retrieve_unfold [where pack_key = pack_key and ixs = ixs and ix = ix and M = M
      and query = query and k = k and cands = cands] e c ne show ?thesis
    by (simp add: hit_maps)
qed

lemma stable_desc_sorted_unique:
  assumes "stable_desc_sorted f xs ys"
  shows "ys = sorted_reverse f xs"
proof -
  have m: "mset ys = mset xs"
    and s: "sorted_wrt (\<lambda>a b. f b \<le> f a) ys"
    and st: "\<forall>x \<in> set xs. filter (\<lambda>y. f y = f x) ys = filter (\<lambda>y. f y = f x) xs"
    using assms by (simp_all add: stable_desc_sorted_def)
  have "sort_key f (rev xs) = rev ys"
  proof (rule properties_for_sort_key)
    show "mset (rev ys) = mset (rev xs)"
      using m by simp
  next
    fix k assume "k \<in> set (rev ys)"
    then have "k \<in> set xs"
      using m by (metis set_rev set_mset_mset)
    with st have "filter (\<lambda>y. f y = f k) ys = filter (\<lambda>y. f y = f k) xs"
      by blast
    then have "filter (\<lambda>x. f k = f x) ys = filter (\<lambda>x. f k = f x) xs"
      by (simp add: eq_commute [of "f k"])
    then show "filter (\<lambda>x. f k = f x) (rev ys) = filter (\<lambda>x. f k = f x) (rev xs)"
      by (simp add: rev_filter [symmetric])
  next
    show "sorted (map f (rev ys))"
      using s by (simp add: sorted_map sorted_wrt_rev)
  qed
  then show ?thesis
    by (simp add: sorted_reverse_def)
qed

lemma length_py_slice_to_nonneg: "0 \<le> k \<Longrightarrow> length (py_slice_to k xs) = min (nat k) (length xs)"
  by (simp add: py_slice_to_def)

lemmas tie_eval = tie_models_def tie_index_def tie_docs_def

text \<open>
  Claim C2, as the code has it: for \<open>k \<ge> 0\<close>, \<open>retrieve\<close> sorts the reranked candidates
  by relevance score in descending order, ties in dense-recall order, and returns the
  top \<open>k\<close> of them in that order. The candidates \<open>cands\<close> are the documents at the
  offsets the index returned, in the order it returned them; \<open>pairs\<close> gives each its
  reranker score. Exactly one list \<open>rs\<close> is \<open>pairs\<close> sorted stably by descending
  score, and the context and the citations are read off its first \<open>k\<close> entries.
\<close>

theorem retrieve_ranking:
  assumes "0 \<le> k"
    and "ixs pack_key = Some ix" and "index ix \<noteq> []"
    and "idxs = filter (\<lambda>i. i \<noteq> - 1)
        (search M (index ix) (encode M [''query: '' @ query])
           (min (max (k * 3) 30) (int (length (index ix)))))"
    and "\<forall>i \<in> set idxs. 0 \<le> i \<and> i < int (length (meta ix))"
    and "cands = map (\<lambda>i. meta ix ! nat i) idxs"
    and "pairs = zip cands (predict M (map (\<lambda>c. (query, doc_text c)) cands))"
  shows "\<exists>rs. stable_desc_sorted snd pairs rs \<and>
           (\<forall>rs'. stable_desc_sorted snd pairs rs' \<longrightarrow> rs' = rs) \<and>
           fst (retrieve_from_pack M pack_key query k ixs) =
             Inr (map (\<lambda>p. \<lparr>ctx_text = doc_text (fst p), ctx_url = doc_url (fst p),
                               ctx_title = doc_title (fst p)\<rparr>)
                    (take (nat k) rs),
                  map (\<lambda>p. \<lparr>cit_title = doc_title (fst p), cit_url = doc_url (fst p),
                               cit_score = snd p\<rparr>)
                    (take 4 (take (nat k) rs)))"
proof (intro exI [of _ "sorted_reverse snd pairs"] conjI allI impI)
  show "stable_desc_sorted snd pairs (sorted_reverse snd pairs)"
    by (rule sorted_reverse_is_stable_desc)
next
  fix rs' assume "stable_desc_sorted snd pairs rs'"
  then show "rs' = sorted_reverse snd pairs"
    by (rule stable_desc_sorted_unique)
next
  show "fst (retrieve_from_pack M pack_key query k ixs) =
     Inr (map (\<lambda>p. \<lparr>ctx_text = doc_text (fst p), ctx_url = doc_url (fst p),
                       ctx_title = doc_title (fst p)\<rparr>)
            (take (nat k) (sorted_reverse snd pairs)),
          map (\<lambda>p. \<lparr>cit_title = doc_title (fst p), cit_url = doc_url (fst p), cit_score = snd p\<rparr>)
            (take 4 (take (nat k) (sorted_reverse snd pairs))))"
    using retrieve_pipeline [where ixs = ixs and pack_key = pack_key and ix = ix and idxs = idxs
        and M = M and query = query and k = k and cands = cands and pairs = pairs] assms
    by (simp add: py_slice_to_nonneg)
qed

theorem retrieve_ranking_witness:
  "(0::int) \<le> 2 \<and> [''p'' \<mapsto> tie_index] ''p'' = Some tie_index \<and> index tie_index \<noteq> [] \<and>
   filter (\<lambda>i. i \<noteq> - 1)
     (search tie_models (index tie_index) (encode tie_models [''query: '' @ ''X''])
        (min (max (2 * 3) 30) (int (length (index tie_index))))) = [2, 0, 1] \<and>
   list_all (\<lambda>i. 0 \<le> i \<and> i < int (length (meta tie_index))) [2, 0, 1] \<and>
   fst (retrieve_from_pack tie_models ''p'' ''X'' 2 [''p'' \<mapsto> tie_index]) =
     Inr ([\<lparr>ctx_text = ''xx'', ctx_url = ''u/b'', ctx_title = ''B''\<rparr>,
           \<lparr>ctx_text = ''y'', ctx_url = ''u/c'', ctx_title = ''C''\<rparr>],
          [\<lparr>cit_title = ''B'', cit_url = ''u/b'', cit_score = 2\<rparr>,
           \<lparr>cit_title = ''C'', cit_url = ''u/c'', cit_score = 1\<rparr>])"
proof -
  define cands where "cands = map (\<lambda>i. meta tie_index ! nat i) [2, 0, 1]"
  define pairs where
    "pairs = zip cands (predict tie_models (map (\<lambda>c. (''X'', doc_text c)) cands))"
  have idxs: "[2, 0, 1] = filter (\<lambda>i. i \<noteq> - 1)
     (search tie_models (index tie_index) (encode tie_models [''query: '' @ ''X''])
        (min (max (2 * 3) 30) (int (length (index tie_index)))))"
    by (simp add: tie_eval)
  have valid: "\<forall>i \<in> set [2, 0, 1]. 0 \<le> i \<and> i < int (length (meta tie_index))"
    by (simp add: tie_eval)
  have ix: "[''p'' \<mapsto> tie_index] ''p'' = Some tie_index" and ne: "index tie_index \<noteq> []"
    by (simp_all add: tie_eval)
  from retrieve_ranking [where k = 2 and ixs = "[''p'' \<mapsto> tie_index]" and pack_key = "''p''"
      and ix = tie_index and idxs = "[2, 0, 1]" and M = tie_models and query = "''X''"
      and cands = cands and pairs = pairs, OF _ ix ne idxs valid cands_def pairs_def]
  obtain rs where rs: "stable_desc_sorted snd pairs rs"
    and res: "fst (retrieve_from_pack tie_models ''p'' ''X'' 2 [''p'' \<mapsto> tie_index]) =
       Inr (map (\<lambda>p. \<lparr>ctx_text = doc_text (fst p), ctx_url = doc_url (fst p),
                         ctx_title = doc_title (fst p)\<rparr>) (take (nat 2) rs),
            map (\<lambda>p. \<lparr>cit_title = doc_title (fst p), cit_url = doc_url (fst p),
                         cit_score = snd p\<rparr>) (take 4 (take (nat 2) rs)))"
    by auto
  have "rs = sorted_reverse snd pairs"
    using rs by (rule stable_desc_sorted_unique)
  then have "rs = [(tie_docs ! 1, 2), (tie_docs ! 2, 1), (tie_docs ! 0, 1)]"
    by (simp add: pairs_def cands_def sorted_reverse_def tie_eval)
  with res idxs [symmetric] ix ne show ?thesis
    by (simp add: tie_eval)
qed

text \<open>
  Without the bound on \<open>k\<close> the claim fails: for \<open>k = -1\<close> the call returns the first
  two of the three ranked candidates, which are not the top \<open>-1\<close> of them.
\<close>

theorem retrieve_top_k_counterexample:
  "fst (retrieve_from_pack tie_models ''p'' ''X'' (- 1) [''p'' \<mapsto> tie_index]) =
     Inr ([\<lparr>ctx_text = ''xx'', ctx_url = ''u/b'', ctx_title = ''B''\<rparr>,
           \<lparr>ctx_text = ''y'', ctx_url = ''u/c'', ctx_title = ''C''\<rparr>],
          [\<lparr>cit_title = ''B'', cit_url = ''u/b'', cit_score = 2\<rparr>,
           \<lparr>cit_title = ''C'', cit_url = ''u/c'', cit_score = 1\<rparr>]) \<and>
   [\<lparr>ctx_text = ''xx'', ctx_url = ''u/b'', ctx_title = ''B''\<rparr>,
    \<lparr>ctx_text = ''y'', ctx_url = ''u/c'', ctx_title = ''C''\<rparr>] \<noteq>
   map (\<lambda>p. \<lparr>ctx_text = doc_text (fst p), ctx_url = doc_url (fst p), ctx_title = doc_title (fst p)\<rparr>)
     (take (nat (- 1))
        (sorted_reverse snd
           (zip [tie_docs ! 2, tie_docs ! 0, tie_docs ! 1]
              (predict tie_models
                 (map (\<lambda>c. (''X'', doc_text c)) [tie_docs ! 2, tie_docs ! 0, tie_docs ! 1])))))"
  by (simp add: retrieve_from_pack_def ensure_index_def recall_cands_def recall_idxs_def q_vec_def
      pre_k_def ranked_def scored_def rerank_pairs_def sorted_reverse_def py_slice_to_def py_get_def
      hit_of_def context_of_def citation_of_def tie_eval)


text \<open>
  Claim C4, as the code has it: for every query and every \<open>k \<ge> 0\<close>, \<open>retrieve\<close> returns
  at most \<open>k\<close> context items and at most \<open>min(k, 4)\<close> citations; the citations are
  the first (at most four) of the returned hits in rank order, all of them when there
  are fewer than four. The call raises only when the index returned an offset outside
  \<open>meta\<close>.
\<close>

theorem retrieve_bounds:
  assumes "0 \<le> k"
  shows "case fst (retrieve_from_pack M pack_key query k ixs) of
           Inl e \<Rightarrow>
             e = IndexError \<and>
             (\<exists>ix. ensure_index pack_key ixs pack_key = Some ix \<and> \<not> valid_offsets M ix query k)
         | Inr (context, citations) \<Rightarrow>
             length context \<le> nat k \<and> length citations \<le> min (nat k) 4 \<and>
             (length context < 4 \<longrightarrow> length citations = length context) \<and>
             (\<exists>hits. context = map context_of hits \<and> citations = map citation_of (take 4 hits))"
proof (cases rule: ensure_index_cases [of pack_key ixs])
  case (1 ix)
  show ?thesis
  proof (cases "length (index ix) = 0")
    case True
    with 1 show ?thesis
      by (simp add: retrieve_from_pack_def)
  next
    case False
    show ?thesis
    proof (cases "recall_cands M ix query k")
      case None
      then have "\<not> valid_offsets M ix query k"
        using recall_cands_Some_iff [of M ix query k] by simp
      with 1 False None show ?thesis
        by (simp add: retrieve_from_pack_def)
    next
      case (Some cands)
      have len: "length (ranked M query k cands) \<le> nat k"
        using assms by (simp add: ranked_def length_py_slice_to)
      have "\<exists>hits. map (context_of \<circ> hit_of) (ranked M query k cands) = map context_of hits \<and>
              map (citation_of \<circ> hit_of) (take 4 (ranked M query k cands)) = map citation_of (take 4 hits)"
        by (rule exI [of _ "map hit_of (ranked M query k cands)"]) (simp add: take_map)
      with len retrieve_unfold [OF 1(1) False Some] show ?thesis
        by (simp add: min_def)
    qed
  qed
next
  case 2
  then show ?thesis
    by (simp add: retrieve_from_pack_def)
qed

theorem retrieve_bounds_witness:
  "(0::int) \<le> 2 \<and>
   (case fst (retrieve_from_pack demo_models ''p'' ''X'' 2 [''p'' \<mapsto> demo_index 3]) of
      Inl e \<Rightarrow>
        e = IndexError \<and>
        (\<exists>ix. ensure_index ''p'' [''p'' \<mapsto> demo_index 3] ''p'' = Some ix \<and>
              \<not> valid_offsets demo_models ix ''X'' 2)
    | Inr (context, citations) \<Rightarrow>
        length context \<le> nat 2 \<and> length citations \<le> min (nat 2) 4 \<and>
        (length context < 4 \<longrightarrow> length citations = length context) \<and>
        (\<exists>hits. context = map context_of hits \<and> citations = map citation_of (take 4 hits)))"
  using retrieve_bounds [where k = 2 and M = demo_models and pack_key = "''p''" and query = "''X''"
      and ixs = "[''p'' \<mapsto> demo_index 3]"]
  by simp

text \<open>
  For a negative \<open>k\<close> the claim as stated fails: \<open>[:k]\<close> then drops the last \<open>-k\<close>
  ranked candidates and keeps the others. With three documents and \<open>k = -1\<close> the call
  returns two context items.
\<close>

theorem retrieve_negative_k_counterexample:
  "fst (retrieve_from_pack demo_models ''p'' ''X'' (- 1) [''p'' \<mapsto> demo_index 3]) =
     Inr ([\<lparr>ctx_text = ''xx'', ctx_url = ''u'', ctx_title = ''t''\<rparr>,
           \<lparr>ctx_text = ''x'', ctx_url = ''u'', ctx_title = ''t''\<rparr>],
          [\<lparr>cit_title = ''t'', cit_url = ''u'', cit_score = 2\<rparr>,
           \<lparr>cit_title = ''t'', cit_url = ''u'', cit_score = 1\<rparr>]) \<and>
   \<not> int (length [\<lparr>ctx_text = ''xx'', ctx_url = ''u'', ctx_title = ''t''\<rparr>,
           \<lparr>ctx_text = ''x'', ctx_url = ''u'', ctx_title = ''t''\<rparr>]) \<le> - 1"
  by (simp add: retrieve_eval)

text \<open>
  Claim C5: the dense-recall stage asks the index for exactly
  \<open>min(max(k * 3, 30), ntotal)\<close> neighbours. The candidates are the documents at the
  offsets that the index returns for that request, for the query embedded with its
  prefix; when the index answers a request for \<open>n \<le> ntotal\<close> neighbours with \<open>n\<close>
  offsets into the pack and the reranker gives one score per pair, that many
  candidates are reranked. On an index of ten vectors with \<open>k = 5\<close> this is ten
  candidates, five context items and four citations.
\<close>

theorem retrieve_dense_recall:
  assumes ix: "ixs pack_key = Some ix" and ne: "index ix \<noteq> []"
    and answer: "\<forall>n. 0 \<le> n \<and> n \<le> int (length (index ix)) \<longrightarrow>
        length (search M (index ix) (encode M [''query: '' @ query]) n) = nat n \<and>
        (\<forall>i \<in> set (search M (index ix) (encode M [''query: '' @ query]) n).
           0 \<le> i \<and> i < int (length (meta ix)))"
    and score: "\<forall>ps. length (predict M ps) = length ps"
    and cands: "cands = map (\<lambda>i. meta ix ! nat i)
        (search M (index ix) (encode M [''query: '' @ query])
           (min (max (k * 3) 30) (int (length (index ix)))))"
    and pairs: "pairs = zip cands (predict M (map (\<lambda>c. (query, doc_text c)) cands))"
  shows "pre_k k (length (index ix)) = min (max (k * 3) 30) (int (length (index ix))) \<and>
         recall_cands M ix query k = Some cands \<and>
         length cands = nat (min (max (k * 3) 30) (int (length (index ix)))) \<and>
         length pairs = length cands \<and>
         (\<exists>context citations.
            fst (retrieve_from_pack M pack_key query k ixs) = Inr (context, citations) \<and>
            context =
              map (\<lambda>p. \<lparr>ctx_text = doc_text (fst p), ctx_url = doc_url (fst p),
                          ctx_title = doc_title (fst p)\<rparr>)
                (py_slice_to k (sorted_reverse snd pairs)) \<and>
            (length (index ix) = 10 \<and> k = 5 \<longrightarrow>
               length cands = 10 \<and> length context = 5 \<and> length citations = 4))"
proof -
  let ?n = "min (max (k * 3) 30) (int (length (index ix)))"
  let ?r = "search M (index ix) (encode M [''query: '' @ query]) ?n"
  have n: "0 \<le> ?n \<and> ?n \<le> int (length (index ix))"
    by simp
  with answer have len: "length ?r = nat ?n"
    and rng: "\<forall>i \<in> set ?r. 0 \<le> i \<and> i < int (length (meta ix))"
    by blast+
  from rng have "\<forall>i \<in> set ?r. i \<noteq> - 1"
    by auto
  then have idxs: "?r = filter (\<lambda>i. i \<noteq> - 1) ?r"
    by simp
  have lc: "length cands = nat ?n"
    by (simp only: cands length_map len)
  have lp: "length pairs = length cands"
    using score by (simp add: pairs)
  have r: "recall_idxs M ix query k = ?r"
    using idxs by (simp add: recall_idxs_def q_vec_def pre_k_def)
  have rc: "recall_cands M ix query k = Some cands"
    using those_map_py_get [OF rng] by (simp add: recall_cands_def r cands)
  have res: "fst (retrieve_from_pack M pack_key query k ixs) =
     Inr (map (\<lambda>p. \<lparr>ctx_text = doc_text (fst p), ctx_url = doc_url (fst p),
                       ctx_title = doc_title (fst p)\<rparr>)
            (py_slice_to k (sorted_reverse snd pairs)),
          map (\<lambda>p. \<lparr>cit_title = doc_title (fst p), cit_url = doc_url (fst p), cit_score = snd p\<rparr>)
            (take 4 (py_slice_to k (sorted_reverse snd pairs))))"
    using retrieve_pipeline [where ixs = ixs and pack_key = pack_key and ix = ix and idxs = ?r
        and M = M and query = query and k = k and cands = cands and pairs = pairs]
      ix ne idxs rng cands pairs
    by blast
  have sc: "length (index ix) = 10 \<and> k = 5 \<longrightarrow>
      length cands = 10 \<and>
      length (py_slice_to k (sorted_reverse snd pairs)) = 5 \<and>
      length (take 4 (py_slice_to k (sorted_reverse snd pairs))) = 4"
    using lc lp by (auto simp: length_py_slice_to_nonneg length_sorted_reverse)
  show ?thesis
    using res rc lc lp sc by (simp add: pre_k_def)
qed

theorem retrieve_dense_recall_witness:
  "[''p'' \<mapsto> demo_index 10] ''p'' = Some (demo_index 10) \<and> index (demo_index 10) \<noteq> [] \<and>
   search demo_models (index (demo_index 10)) (encode demo_models [''query: '' @ ''X''])
     (min (max (5 * 3) 30) (int (length (index (demo_index 10))))) =
     [0, 1, 2, 3, 4, 5, 6, 7, 8, 9] \<and>
   pre_k 5 (length (index (demo_index 10))) = 10 \<and>
   recall_cands demo_models (demo_index 10) ''X'' 5 =
     Some (map demo_doc [0, 1, 2, 3, 4, 5, 6, 7, 8, 9]) \<and>
   (\<exists>context citations.
      fst (retrieve_from_pack demo_models ''p'' ''X'' 5 [''p'' \<mapsto> demo_index 10]) =
        Inr (context, citations) \<and>
      map ctx_text context = [''xxxxxxxxx'', ''xxxxxxxx'', ''xxxxxxx'', ''xxxxxx'', ''xxxxx''] \<and>
      length context = 5 \<and> length citations = 4)"
proof -
  define cands where "cands = map (\<lambda>i. meta (demo_index 10) ! nat i)
     (search demo_models (index (demo_index 10)) (encode demo_models [''query: '' @ ''X''])
        (min (max (5 * 3) 30) (int (length (index (demo_index 10))))))"
  define pairs where
    "pairs = zip cands (predict demo_models (map (\<lambda>c. (''X'', doc_text c)) cands))"
  have ix: "[''p'' \<mapsto> demo_index 10] ''p'' = Some (demo_index 10)"
    and ne: "index (demo_index 10) \<noteq> []"
    by (simp_all add: demo_index_def)
  have answer: "\<forall>n. 0 \<le> n \<and> n \<le> int (length (index (demo_index 10))) \<longrightarrow>
        length (search demo_models (index (demo_index 10)) (encode demo_models [''query: '' @ ''X'']) n) = nat n \<and>
        (\<forall>i \<in> set (search demo_models (index (demo_index 10)) (encode demo_models [''query: '' @ ''X'']) n).
           0 \<le> i \<and> i < int (length (meta (demo_index 10))))"
    by (auto simp: demo_index_def demo_models_def dest!: in_set_takeD)
  have score: "\<forall>ps. length (predict demo_models ps) = length ps"
    by (simp add: demo_models_def)
  have s: "search demo_models (index (demo_index 10)) (encode demo_models [''query: '' @ ''X''])
     (min (max (5 * 3) 30) (int (length (index (demo_index 10))))) = [0, 1, 2, 3, 4, 5, 6, 7, 8, 9]"
    by (simp add: demo_index_def demo_models_def)
  have c: "cands = map demo_doc [0, 1, 2, 3, 4, 5, 6, 7, 8, 9]"
    unfolding cands_def s by (simp add: demo_index_def)
  have p: "sorted_reverse snd pairs =
     [(demo_doc 9, 9), (demo_doc 8, 8), (demo_doc 7, 7), (demo_doc 6, 6), (demo_doc 5, 5),
      (demo_doc 4, 4), (demo_doc 3, 3), (demo_doc 2, 2), (demo_doc 1, 1), (demo_doc 0, 0)]"
    by (simp add: pairs_def c sorted_reverse_def demo_models_def demo_doc_def)
  from retrieve_dense_recall [where ixs = "[''p'' \<mapsto> demo_index 10]" and pack_key = "''p''"
      and ix = "demo_index 10" and M = demo_models and query = "''X''" and k = 5
      and cands = cands and pairs = pairs, OF ix ne answer score cands_def pairs_def]
  obtain ctxs cits where
    pk: "pre_k 5 (length (index (demo_index 10))) = min (max (5 * 3) 30) (int (length (index (demo_index 10))))"
    and rc: "recall_cands demo_models (demo_index 10) ''X'' 5 = Some cands"
    and res: "fst (retrieve_from_pack demo_models ''p'' ''X'' 5 [''p'' \<mapsto> demo_index 10]) =
        Inr (ctxs, cits)"
    and ctx: "ctxs =
        map (\<lambda>p. \<lparr>ctx_text = doc_text (fst p), ctx_url = doc_url (fst p),
                    ctx_title = doc_title (fst p)\<rparr>)
          (py_slice_to 5 (sorted_reverse snd pairs))"
    and sc: "length (index (demo_index 10)) = 10 \<and> (5::int) = 5 \<longrightarrow>
        length cands = 10 \<and> length ctxs = 5 \<and> length cits = 4"
    by blast
  have l10: "length (index (demo_index 10)) = 10"
    by (simp add: demo_index_def)
  have texts: "map ctx_text ctxs = [''xxxxxxxxx'', ''xxxxxxxx'', ''xxxxxxx'', ''xxxxxx'', ''xxxxx'']"
    unfolding ctx p by (simp add: py_slice_to_def demo_doc_def replicate_numeral_eval)
  show ?thesis
    using ix ne s pk rc res sc l10 texts c by auto
qed


text \<open>
  Claim C7: on a pack whose index holds no vector (also a pack key never seen before,
  for which an empty index is created), \<open>retrieve\<close> returns the pair of empty lists for
  every query and every \<open>k\<close>, and raises nothing.
\<close>

theorem retrieve_empty_index:
  assumes "\<forall>ix. ixs pack_key = Some ix \<longrightarrow> length (index ix) = 0"
  shows "fst (retrieve_from_pack M pack_key query k ixs) = Inr ([], [])"
proof (cases rule: ensure_index_cases [of pack_key ixs])
  case (1 ix)
  with assms show ?thesis
    by (simp add: retrieve_from_pack_def)
next
  case 2
  then show ?thesis
    by (simp add: retrieve_from_pack_def)
qed

theorem retrieve_empty_index_witness:
  "[''p'' \<mapsto> demo_index 0] ''p'' = Some (demo_index 0) \<and>
   length (index (demo_index 0)) = 0 \<and>
   fst (retrieve_from_pack demo_models ''p'' ''X'' 5 [''p'' \<mapsto> demo_index 0]) = Inr ([], [])"
  using retrieve_empty_index [where ixs = "[''p'' \<mapsto> demo_index 0]" and pack_key = "''p''"
      and M = demo_models and query = "''X''" and k = 5]
  by (simp add: demo_index_def)

end
